theory Spec2Isabelle
  imports Main "HOL-Library.Word"
begin

section \<open>Data model of package sandbox (sandbox.go)\<close>

text \<open>
  The Go structs \<^verbatim>\<open>file\<close>, \<^verbatim>\<open>mountDir\<close> and \<^verbatim>\<open>Sandbox\<close>, field by field.
  Both \<^verbatim>\<open>file\<close> and \<^verbatim>\<open>mountDir\<close> have fields \<^verbatim>\<open>src\<close> and \<^verbatim>\<open>dst\<close>; they are
  told apart by their qualified names \<open>file_entry.src\<close> and \<open>mountDir.src\<close>
  (the struct \<^verbatim>\<open>file\<close> is the record \<open>file_entry\<close>: \<open>file\<close> is reserved in Isabelle).
  A Go \<^verbatim>\<open>uint64\<close> is a 64-bit word, a slice is a list.
\<close>

record file_entry =
  src :: string
  dst :: string
  withLibs :: bool

record mountDir =
  src :: string
  dst :: string

record Sandbox =
  path :: string
  files :: "file_entry list"
  mountDirs :: "mountDir list"
  env :: "string list"
  noNewNet :: bool
  cgroup :: string
  cpuSet :: string
  memLimit :: "64 word"
  saveUsageStat :: string
  execDir :: string

section \<open>The builder\<close>

text \<open>
  \<^verbatim>\<open>New\<close> returns \<^verbatim>\<open>&Sandbox{path: path}\<close>: every other field has Go's zero value
  (nil slice, false, empty string, 0).
\<close>

definition New :: "string \<Rightarrow> Sandbox" where
  "New p = \<lparr>path = p, files = [], mountDirs = [], env = [], noNewNet = False,
     cgroup = [], cpuSet = [], memLimit = 0, saveUsageStat = [], execDir = []\<rparr>"

text \<open>
  Every builder method writes one field of the receiver and returns the receiver.
  The receiver is passed in and the updated receiver is the result.
\<close>

definition AddFile :: "string \<Rightarrow> string \<Rightarrow> bool \<Rightarrow> Sandbox \<Rightarrow> Sandbox" where
  "AddFile a b w s = s\<lparr>files := files s @ [\<lparr>file_entry.src = a, file_entry.dst = b, withLibs = w\<rparr>]\<rparr>"

definition MountDir :: "string \<Rightarrow> string \<Rightarrow> Sandbox \<Rightarrow> Sandbox" where
  "MountDir a b s = s\<lparr>mountDirs := mountDirs s @ [\<lparr>mountDir.src = a, mountDir.dst = b\<rparr>]\<rparr>"

definition AddEnv :: "string \<Rightarrow> Sandbox \<Rightarrow> Sandbox" where
  "AddEnv v s = s\<lparr>env := env s @ [v]\<rparr>"

definition SetNoNewNet :: "bool \<Rightarrow> Sandbox \<Rightarrow> Sandbox" where
  "SetNoNewNet v s = s\<lparr>noNewNet := v\<rparr>"

definition SetCGroup :: "string \<Rightarrow> Sandbox \<Rightarrow> Sandbox" where
  "SetCGroup name s = s\<lparr>cgroup := name\<rparr>"

definition SetCpuSet :: "string \<Rightarrow> Sandbox \<Rightarrow> Sandbox" where
  "SetCpuSet set' s = s\<lparr>cpuSet := set'\<rparr>"

definition SetMemLimit :: "64 word \<Rightarrow> Sandbox \<Rightarrow> Sandbox" where
  "SetMemLimit limit s = s\<lparr>memLimit := limit\<rparr>"

definition SaveUsageStat :: "string \<Rightarrow> Sandbox \<Rightarrow> Sandbox" where
  "SaveUsageStat filename s = s\<lparr>saveUsageStat := filename\<rparr>"

definition ExecDir :: "string \<Rightarrow> Sandbox \<Rightarrow> Sandbox" where
  "ExecDir dir s = s\<lparr>execDir := dir\<rparr>"

section \<open>strconv.FormatUint\<close>

text \<open>
  \<^verbatim>\<open>strconv.FormatUint\<close> belongs to Go's standard library, not to this package: it
  returns the representation of \<^verbatim>\<open>i\<close> in the given base, with the letters \<^verbatim>\<open>a\<close> to \<^verbatim>\<open>z\<close>
  for the digit values from 10. The model is the general loop of the library, which
  fills a buffer from the right,
  \<^verbatim>\<open>for u >= b { i--; q := u / b; a[i] = digits[u-q*b]; u = q }; i--; a[i] = digits[u]\<close>
  with \<^verbatim>\<open>digits = "0123456789abcdefghijklmnopqrstuvwxyz"\<close>; the buffer is the
  accumulator \<open>a\<close>. (For base 10 the library runs the same loop two digits per step.)
  Go panics for a base outside 2..36: there the model's value means nothing.
  \<^verbatim>\<open>BuildExecArgs\<close> only ever passes 10.
\<close>

definition digits :: string where
  "digits = ''0123456789abcdefghijklmnopqrstuvwxyz''"

function formatBits :: "nat \<Rightarrow> nat \<Rightarrow> string \<Rightarrow> string" where
  "formatBits u b a =
     (if 2 \<le> b \<and> b \<le> 36 \<and> b \<le> u
      then formatBits (u div b) b ((digits ! (u mod b)) # a)
      else (digits ! u) # a)"
  by pat_completeness auto
termination
  by (relation "measure (\<lambda>(u, b, a). u)") auto

definition FormatUint :: "64 word \<Rightarrow> nat \<Rightarrow> string" where
  "FormatUint i base = formatBits (unat i) base []"

section \<open>BuildExecArgs\<close>

text \<open>
  The method reads the receiver \<^verbatim>\<open>s\<close> and grows the local slice \<^verbatim>\<open>execArgs\<close>.
  A frame holds both: the object behind the receiver pointer and the local variable.
  Each statement of the method is a function from frames to frames.
\<close>

record frame =
  recv :: Sandbox
  execArgs :: "string list"

text \<open>\<^verbatim>\<open>execArgs = append(execArgs, ts...)\<close>\<close>

definition append_args :: "string list \<Rightarrow> frame \<Rightarrow> frame" where
  "append_args ts fr = fr\<lparr>execArgs := execArgs fr @ ts\<rparr>"

text \<open>The bodies of the three \<^verbatim>\<open>range\<close> loops.\<close>

definition files_body :: "file_entry \<Rightarrow> frame \<Rightarrow> frame" where
  "files_body f fr =
     append_args [file_entry.src f, file_entry.dst f]
       (if withLibs f then append_args [''--add_elf_file''] fr
        else append_args [''--add_file''] fr)"

definition mountDirs_body :: "mountDir \<Rightarrow> frame \<Rightarrow> frame" where
  "mountDirs_body d fr = append_args [''--mount_dir'', mountDir.src d, mountDir.dst d] fr"

definition env_body :: "string \<Rightarrow> frame \<Rightarrow> frame" where
  "env_body e fr = append_args [''--env'', e] fr"

text \<open>
  The whole method, statement by statement. The parameter \<^verbatim>\<open>path\<close> of the source is
  called \<open>prog\<close> here, since \<open>path\<close> is the field of the receiver.
\<close>

definition BuildExecArgs_frame :: "Sandbox \<Rightarrow> string \<Rightarrow> string list \<Rightarrow> frame" where
  "BuildExecArgs_frame s prog args =
     (let fr = \<lparr>recv = s, execArgs = [path s]\<rparr>;
          fr = fold files_body (files (recv fr)) fr;
          fr = fold mountDirs_body (mountDirs (recv fr)) fr;
          fr = fold env_body (env (recv fr)) fr;
          fr = (if noNewNet (recv fr) then append_args [''--no_new_net''] fr else fr);
          fr = (if cgroup (recv fr) \<noteq> [] then append_args [''--cgroup'', cgroup (recv fr)] fr else fr);
          fr = (if cpuSet (recv fr) \<noteq> [] then append_args [''--cpuset'', cpuSet (recv fr)] fr else fr);
          fr = (if memLimit (recv fr) \<noteq> 0
                then append_args [''--mem_limit'', FormatUint (memLimit (recv fr)) 10] fr else fr);
          fr = (if saveUsageStat (recv fr) \<noteq> []
                then append_args [''--save_usage_stat'', saveUsageStat (recv fr)] fr else fr);
          fr = (if execDir (recv fr) \<noteq> [] then append_args [''--exec_dir'', execDir (recv fr)] fr else fr);
          fr = append_args [''--'', prog] fr;
          fr = append_args args fr
      in fr)"

text \<open>The value returned, \<^verbatim>\<open>return execArgs\<close>.\<close>

definition BuildExecArgs :: "Sandbox \<Rightarrow> string \<Rightarrow> string list \<Rightarrow> string list" where
  "BuildExecArgs s prog args = execArgs (BuildExecArgs_frame s prog args)"

section \<open>Command and CommandContext\<close>

text \<open>
  \<^verbatim>\<open>exec.Command\<close> and \<^verbatim>\<open>exec.CommandContext\<close> belong to Go's \<^verbatim>\<open>os/exec\<close>. The model
  records which of the two primitives is called and with which arguments. A
  \<^verbatim>\<open>context.Context\<close> is an interface value: \<open>None\<close> is \<^verbatim>\<open>nil\<close>. The package variable
  \<^verbatim>\<open>Path\<close> is read at the call; it is the first parameter here.
\<close>

datatype 'ctx Cmd =
    exec_Command string "string list"
  | exec_CommandContext 'ctx string "string list"

definition CommandContext ::
  "string \<Rightarrow> Sandbox \<Rightarrow> 'ctx option \<Rightarrow> string \<Rightarrow> string list \<Rightarrow> 'ctx Cmd" where
  "CommandContext Path s ctx prog args =
     (let execArgs = BuildExecArgs s prog args
      in case ctx of
           None \<Rightarrow> exec_Command Path execArgs
         | Some c \<Rightarrow> exec_CommandContext c Path execArgs)"

definition Command :: "string \<Rightarrow> Sandbox \<Rightarrow> string \<Rightarrow> string list \<Rightarrow> 'ctx Cmd" where
  "Command Path s prog args = CommandContext Path s None prog args"

section \<open>Sequences of builder calls\<close>

text \<open>
  A call of one of the six scalar setters, with its argument, and what it does to the
  receiver.
\<close>

datatype setter_call =
    Call_SetNoNewNet bool
  | Call_SetCGroup string
  | Call_SetCpuSet string
  | Call_SetMemLimit "64 word"
  | Call_SaveUsageStat string
  | Call_ExecDir string

fun do_setter :: "setter_call \<Rightarrow> Sandbox \<Rightarrow> Sandbox" where
  "do_setter (Call_SetNoNewNet v) s = SetNoNewNet v s"
| "do_setter (Call_SetCGroup v) s = SetCGroup v s"
| "do_setter (Call_SetCpuSet v) s = SetCpuSet v s"
| "do_setter (Call_SetMemLimit v) s = SetMemLimit v s"
| "do_setter (Call_SaveUsageStat v) s = SaveUsageStat v s"
| "do_setter (Call_ExecDir v) s = ExecDir v s"

text \<open>The argument of a call, when the call is to the named setter.\<close>

fun arg_SetNoNewNet :: "setter_call \<Rightarrow> bool option" where
  "arg_SetNoNewNet (Call_SetNoNewNet v) = Some v"
| "arg_SetNoNewNet _ = None"

fun arg_SetCGroup :: "setter_call \<Rightarrow> string option" where
  "arg_SetCGroup (Call_SetCGroup v) = Some v"
| "arg_SetCGroup _ = None"

fun arg_SetCpuSet :: "setter_call \<Rightarrow> string option" where
  "arg_SetCpuSet (Call_SetCpuSet v) = Some v"
| "arg_SetCpuSet _ = None"

fun arg_SetMemLimit :: "setter_call \<Rightarrow> 64 word option" where
  "arg_SetMemLimit (Call_SetMemLimit v) = Some v"
| "arg_SetMemLimit _ = None"

fun arg_SaveUsageStat :: "setter_call \<Rightarrow> string option" where
  "arg_SaveUsageStat (Call_SaveUsageStat v) = Some v"
| "arg_SaveUsageStat _ = None"

fun arg_ExecDir :: "setter_call \<Rightarrow> string option" where
  "arg_ExecDir (Call_ExecDir v) = Some v"
| "arg_ExecDir _ = None"

text \<open>
  The values passed to one setter, in call order, and the last of them
  (\<open>None\<close> when the setter was never called).
\<close>

definition args_of :: "(setter_call \<Rightarrow> 'a option) \<Rightarrow> setter_call list \<Rightarrow> 'a list" where
  "args_of sel cs = List.map_filter sel cs"

definition last_arg :: "(setter_call \<Rightarrow> 'a option) \<Rightarrow> setter_call list \<Rightarrow> 'a option" where
  "last_arg sel cs = (if args_of sel cs = [] then None else Some (last (args_of sel cs)))"

text \<open>A call of one of the three appending methods.\<close>

datatype add_call =
    Call_AddFile string string bool
  | Call_MountDir string string
  | Call_AddEnv string

fun do_add :: "add_call \<Rightarrow> Sandbox \<Rightarrow> Sandbox" where
  "do_add (Call_AddFile a b w) s = AddFile a b w s"
| "do_add (Call_MountDir a b) s = MountDir a b s"
| "do_add (Call_AddEnv v) s = AddEnv v s"

text \<open>The entry a call inserts, per list field.\<close>

fun added_file :: "add_call \<Rightarrow> file_entry option" where
  "added_file (Call_AddFile a b w) = Some \<lparr>file_entry.src = a, file_entry.dst = b, withLibs = w\<rparr>"
| "added_file _ = None"

fun added_mountDir :: "add_call \<Rightarrow> mountDir option" where
  "added_mountDir (Call_MountDir a b) = Some \<lparr>mountDir.src = a, mountDir.dst = b\<rparr>"
| "added_mountDir _ = None"

fun added_env :: "add_call \<Rightarrow> string option" where
  "added_env (Call_AddEnv v) = Some v"
| "added_env _ = None"

section \<open>The argument grammar, as the specification words it\<close>

text \<open>
  Three tokens per \<^verbatim>\<open>files\<close> entry, three per \<^verbatim>\<open>mountDirs\<close> entry, two per \<^verbatim>\<open>env\<close>
  entry.
\<close>

definition file_tokens :: "file_entry \<Rightarrow> string list" where
  "file_tokens f =
     [if withLibs f then ''--add_elf_file'' else ''--add_file'', file_entry.src f, file_entry.dst f]"

definition mountDir_tokens :: "mountDir \<Rightarrow> string list" where
  "mountDir_tokens d = [''--mount_dir'', mountDir.src d, mountDir.dst d]"

definition env_tokens :: "string \<Rightarrow> string list" where
  "env_tokens e = [''--env'', e]"

text \<open>
  The base-10 numeral of a natural number, most significant digit first, and the
  number a string of decimal digits denotes.
\<close>

fun decimal_string :: "nat \<Rightarrow> string" where
  "decimal_string n =
     (if n < 10 then [char_of (48 + n)]
      else decimal_string (n div 10) @ [char_of (48 + n mod 10)])"

definition decimal_value :: "string \<Rightarrow> nat" where
  "decimal_value cs = foldl (\<lambda>v c. 10 * v + (of_char c - 48)) 0 cs"

text \<open>
  The strings the caller supplied that reach the output: those of the configuration
  (an optional string counts when it is set) and those of the execution request.
\<close>

definition config_strings :: "Sandbox \<Rightarrow> string list" where
  "config_strings s =
     [path s]
     @ concat (map (\<lambda>f. [file_entry.src f, file_entry.dst f]) (files s))
     @ concat (map (\<lambda>d. [mountDir.src d, mountDir.dst d]) (mountDirs s))
     @ env s
     @ filter (\<lambda>v. v \<noteq> []) [cgroup s, cpuSet s, saveUsageStat s, execDir s]"

text \<open>The flags the compiler writes for a configuration, the separator excluded.\<close>

definition config_flags :: "Sandbox \<Rightarrow> string list" where
  "config_flags s =
     map (\<lambda>f. if withLibs f then ''--add_elf_file'' else ''--add_file'') (files s)
     @ replicate (length (mountDirs s)) ''--mount_dir''
     @ replicate (length (env s)) ''--env''
     @ (if noNewNet s then [''--no_new_net''] else [])
     @ (if cgroup s \<noteq> [] then [''--cgroup''] else [])
     @ (if cpuSet s \<noteq> [] then [''--cpuset''] else [])
     @ (if memLimit s \<noteq> 0 then [''--mem_limit''] else [])
     @ (if saveUsageStat s \<noteq> [] then [''--save_usage_stat''] else [])
     @ (if execDir s \<noteq> [] then [''--exec_dir''] else [])"

text \<open>
  The output by position: the root path with the three list fields (items 1 to 4 of
  the contract), one part per scalar field (items 5 to 10), and the separator with the
  execution request (items 11 to 13).
\<close>

definition lists_part :: "Sandbox \<Rightarrow> string list" where
  "lists_part s =
     [path s]
     @ concat (map file_tokens (files s))
     @ concat (map mountDir_tokens (mountDirs s))
     @ concat (map env_tokens (env s))"

definition noNewNet_part :: "Sandbox \<Rightarrow> string list" where
  "noNewNet_part s = (if noNewNet s then [''--no_new_net''] else [])"

definition cgroup_part :: "Sandbox \<Rightarrow> string list" where
  "cgroup_part s = (if cgroup s \<noteq> [] then [''--cgroup'', cgroup s] else [])"

definition cpuSet_part :: "Sandbox \<Rightarrow> string list" where
  "cpuSet_part s = (if cpuSet s \<noteq> [] then [''--cpuset'', cpuSet s] else [])"

definition memLimit_part :: "Sandbox \<Rightarrow> string list" where
  "memLimit_part s =
     (if memLimit s \<noteq> 0 then [''--mem_limit'', decimal_string (unat (memLimit s))] else [])"

definition saveUsageStat_part :: "Sandbox \<Rightarrow> string list" where
  "saveUsageStat_part s =
     (if saveUsageStat s \<noteq> [] then [''--save_usage_stat'', saveUsageStat s] else [])"

definition execDir_part :: "Sandbox \<Rightarrow> string list" where
  "execDir_part s = (if execDir s \<noteq> [] then [''--exec_dir'', execDir s] else [])"

definition request_part :: "string \<Rightarrow> string list \<Rightarrow> string list" where
  "request_part prog args = [''--'', prog] @ args"

section \<open>Frames and loops\<close>

declare decimal_string.simps [simp del]
declare formatBits.simps [simp del]

lemma recv_append_args [simp]: "recv (append_args ts fr) = recv fr"
  by (simp add: append_args_def)

lemma execArgs_append_args [simp]: "execArgs (append_args ts fr) = execArgs fr @ ts"
  by (simp add: append_args_def)

lemma if_append_args [simp]:
  "(if c then append_args ts fr else fr) = append_args (if c then ts else []) fr"
  by (simp add: append_args_def)

lemma recv_fold_files_body [simp]: "recv (fold files_body fs fr) = recv fr"
  by (induction fs arbitrary: fr) (simp_all add: files_body_def)

lemma recv_fold_mountDirs_body [simp]: "recv (fold mountDirs_body ds fr) = recv fr"
  by (induction ds arbitrary: fr) (simp_all add: mountDirs_body_def)

lemma recv_fold_env_body [simp]: "recv (fold env_body es fr) = recv fr"
  by (induction es arbitrary: fr) (simp_all add: env_body_def)

lemma execArgs_fold_files_body [simp]:
  "execArgs (fold files_body fs fr) = execArgs fr @ concat (map file_tokens fs)"
  by (induction fs arbitrary: fr) (simp_all add: files_body_def file_tokens_def)

lemma execArgs_fold_mountDirs_body [simp]:
  "execArgs (fold mountDirs_body ds fr) = execArgs fr @ concat (map mountDir_tokens ds)"
  by (induction ds arbitrary: fr) (simp_all add: mountDirs_body_def mountDir_tokens_def)

lemma execArgs_fold_env_body [simp]:
  "execArgs (fold env_body es fr) = execArgs fr @ concat (map env_tokens es)"
  by (induction es arbitrary: fr) (simp_all add: env_body_def env_tokens_def)

lemma recv_BuildExecArgs_frame: "recv (BuildExecArgs_frame s prog args) = s"
  by (simp add: BuildExecArgs_frame_def Let_def)

section \<open>FormatUint in base 10\<close>

lemma digits_table: "take 10 digits = map (\<lambda>d. char_of (48 + d)) [0..<10]"
  unfolding digits_def by code_simp

lemma digits_nth: "d < 10 \<Longrightarrow> digits ! d = char_of (48 + d)"
proof -
  assume d: "d < 10"
  then have "digits ! d = take 10 digits ! d" by simp
  also have "\<dots> = char_of (48 + d)"
    using d by (simp only: digits_table nth_map length_upt nth_upt) simp
  finally show ?thesis .
qed

lemma formatBits_decimal: "formatBits u 10 a = decimal_string u @ a"
proof (induction u "10::nat" a rule: formatBits.induct)
  case (1 u a)
  show ?case
  proof (cases "10 \<le> u")
    case True
    then have "formatBits u 10 a = formatBits (u div 10) 10 ((digits ! (u mod 10)) # a)"
      by (subst formatBits.simps) simp
    also have "\<dots> = decimal_string (u div 10) @ (digits ! (u mod 10)) # a"
      using True by (intro "1.hyps") simp
    also have "\<dots> = decimal_string u @ a"
      using True by (subst (2) decimal_string.simps) (simp add: digits_nth)
    finally show ?thesis .
  next
    case False
    then show ?thesis
      by (subst formatBits.simps, subst decimal_string.simps) (simp add: digits_nth)
  qed
qed

lemma FormatUint_decimal: "FormatUint i 10 = decimal_string (unat i)"
  by (simp add: FormatUint_def formatBits_decimal)

lemma decimal_value_snoc: "decimal_value (cs @ [c]) = 10 * decimal_value cs + (of_char c - 48)"
  by (simp add: decimal_value_def)

lemma decimal_value_decimal_string: "decimal_value (decimal_string n) = n"
proof (induction n rule: decimal_string.induct)
  case (1 n)
  show ?case
  proof (cases "n < 10")
    case True
    then show ?thesis
      by (subst decimal_string.simps) (simp add: decimal_value_def)
  next
    case False
    then have "decimal_value (decimal_string n)
        = 10 * decimal_value (decimal_string (n div 10)) + (of_char (char_of (48 + n mod 10) :: char) - 48)"
      by (subst decimal_string.simps) (simp add: decimal_value_snoc)
    also have "\<dots> = 10 * (n div 10) + n mod 10"
      using False by (simp add: "1.IH" mod_mod_cancel)
    finally show ?thesis by simp
  qed
qed

lemma decimal_string_digits: "c \<in> set (decimal_string n) \<Longrightarrow> c \<in> set ''0123456789''"
proof (induction n rule: decimal_string.induct)
  case (1 n)
  have digit: "char_of (48 + k) \<in> set ''0123456789''" if "k < 10" for k :: nat
  proof -
    from that have "char_of (48 + k) = digits ! k" by (simp add: digits_nth)
    also have "\<dots> = take 10 digits ! k" using that by simp
    also have "\<dots> \<in> set (take 10 digits)" using that by (intro nth_mem) (simp add: digits_def)
    also have "take 10 digits = ''0123456789''" by (simp add: digits_def)
    finally show ?thesis .
  qed
  show ?case
  proof (cases "n < 10")
    case True
    with "1.prems" have "c = char_of (48 + n)"
      by (subst (asm) decimal_string.simps) simp
    with True digit show ?thesis by blast
  next
    case False
    with "1.prems" have "c \<in> set (decimal_string (n div 10)) \<or> c = char_of (48 + n mod 10)"
      by (subst (asm) decimal_string.simps) auto
    then show ?thesis
    proof
      assume "c \<in> set (decimal_string (n div 10))"
      with False "1.IH" show ?thesis by blast
    next
      assume "c = char_of (48 + n mod 10)"
      then show ?thesis using digit [of "n mod 10"] by simp
    qed
  qed
qed

lemma decimal_string_no_dash: "CHR ''-'' \<notin> set (decimal_string n)"
  using decimal_string_digits [of "CHR ''-''" n] by auto

lemma decimal_string_nonempty: "decimal_string n \<noteq> []"
  by (subst decimal_string.simps) simp

lemma digit_chars: "map char_of [48, 49, 50, 51, 52, 53, 54, 55, 56, 57 :: nat] = ''0123456789''"
  by code_simp

lemma decimal_string_digit: "n < 10 \<Longrightarrow> decimal_string n = [char_of (48 + n)]"
  by (subst decimal_string.simps) simp

lemma decimal_string_step:
  "10 \<le> n \<Longrightarrow> decimal_string n = decimal_string (n div 10) @ [char_of (48 + n mod 10)]"
  by (subst decimal_string.simps) simp

lemma decimal_string_536870912: "decimal_string 536870912 = ''536870912''"
  using digit_chars by (simp add: decimal_string_digit decimal_string_step)

lemma decimal_string_hd: "(hd (decimal_string n) = CHR ''0'') = (n = 0)"
proof (induction n rule: decimal_string.induct)
  case (1 n)
  show ?case
  proof (cases "n < 10")
    case True
    have "n = 0" if "char_of (48 + n) = CHR ''0''"
    proof -
      from that have "of_char (char_of (48 + n)) = (of_char (CHR ''0'') :: nat)" by simp
      with True show ?thesis by (simp add: of_char_of)
    qed
    moreover have "char_of (48 + n) = CHR ''0''" if "n = 0"
      using that digit_chars by simp
    ultimately show ?thesis
      using True by (auto simp: decimal_string_digit)
  next
    case False
    then have "n div 10 \<noteq> 0" by simp
    with False "1.IH" have "hd (decimal_string (n div 10)) \<noteq> CHR ''0''" by simp
    with False show ?thesis
      by (simp add: decimal_string_step decimal_string_nonempty)
  qed
qed

section \<open>The closed form of BuildExecArgs\<close>

lemma BuildExecArgs_closed:
  "BuildExecArgs s prog args =
     [path s]
     @ concat (map file_tokens (files s))
     @ concat (map mountDir_tokens (mountDirs s))
     @ concat (map env_tokens (env s))
     @ (if noNewNet s then [''--no_new_net''] else [])
     @ (if cgroup s \<noteq> [] then [''--cgroup'', cgroup s] else [])
     @ (if cpuSet s \<noteq> [] then [''--cpuset'', cpuSet s] else [])
     @ (if memLimit s \<noteq> 0 then [''--mem_limit'', decimal_string (unat (memLimit s))] else [])
     @ (if saveUsageStat s \<noteq> [] then [''--save_usage_stat'', saveUsageStat s] else [])
     @ (if execDir s \<noteq> [] then [''--exec_dir'', execDir s] else [])
     @ [''--'', prog]
     @ args"
  by (simp add: BuildExecArgs_def BuildExecArgs_frame_def Let_def FormatUint_decimal)

section \<open>Counting tokens\<close>

text \<open>
  Every token of the output is a string of the caller's, a flag, the separator or the
  numeral of the memory limit. The count of any token splits accordingly.
\<close>

lemma count_list_Cons2: "count_list (x # y # ys) t = count_list [x] t + count_list (y # ys) t"
  by simp

lemma count_file_tokens:
  "count_list (concat (map file_tokens fs)) t =
     count_list (concat (map (\<lambda>f. [file_entry.src f, file_entry.dst f]) fs)) t
     + count_list (map (\<lambda>f. if withLibs f then ''--add_elf_file'' else ''--add_file'') fs) t"
proof (induction fs)
  case Nil
  show ?case by simp
next
  case (Cons f fs)
  have "count_list (file_tokens f) t
      = count_list [file_entry.src f, file_entry.dst f] t
        + count_list [if withLibs f then ''--add_elf_file'' else ''--add_file''] t"
    unfolding file_tokens_def by (simp only: count_list_Cons2 ac_simps)
  with Cons show ?case
    by (simp only: list.map concat.simps count_list_append count_list_Cons2 [of _ _ "map _ _"])
       (cases fs; simp)
qed

lemma count_mountDir_tokens:
  "count_list (concat (map mountDir_tokens ds)) t =
     count_list (concat (map (\<lambda>d. [mountDir.src d, mountDir.dst d]) ds)) t
     + count_list (replicate (length ds) ''--mount_dir'') t"
proof (induction ds)
  case Nil
  show ?case by simp
next
  case (Cons d ds)
  have "count_list (mountDir_tokens d) t
      = count_list [mountDir.src d, mountDir.dst d] t + count_list [''--mount_dir''] t"
    unfolding mountDir_tokens_def by (simp only: count_list_Cons2 ac_simps)
  moreover have "count_list (replicate (length (d # ds)) ''--mount_dir'') t
      = count_list [''--mount_dir''] t + count_list (replicate (length ds) ''--mount_dir'') t"
    by simp
  ultimately show ?case using Cons
    by (simp only: list.map concat.simps count_list_append)
qed

lemma count_env_tokens:
  "count_list (concat (map env_tokens es)) t =
     count_list es t + count_list (replicate (length es) ''--env'') t"
proof (induction es)
  case Nil
  show ?case by simp
next
  case (Cons e es)
  have "count_list (env_tokens e) t = count_list [e] t + count_list [''--env''] t"
    unfolding env_tokens_def by (simp only: count_list_Cons2 ac_simps)
  moreover have "count_list (replicate (length (e # es)) ''--env'') t
      = count_list [''--env''] t + count_list (replicate (length es) ''--env'') t"
    by simp
  moreover have "count_list (e # es) t = count_list [e] t + count_list es t"
    by simp
  ultimately show ?case using Cons
    by (simp only: list.map concat.simps count_list_append)
qed

lemma count_optional:
  "count_list (if v \<noteq> [] then [flag, v] else []) t =
     count_list (filter (\<lambda>v. v \<noteq> []) [v]) t + count_list (if v \<noteq> [] then [flag] else []) t"
  by simp

lemma filter_Cons2: "filter P (v # w # ws) = filter P [v] @ filter P (w # ws)"
  by simp

lemma count_BuildExecArgs:
  "count_list (BuildExecArgs s prog args) t =
     count_list (config_strings s @ prog # args) t
     + count_list (config_flags s @ [''--'']) t
     + count_list (if memLimit s \<noteq> 0 then [decimal_string (unat (memLimit s))] else []) t"
proof -
  have m: "count_list (if memLimit s \<noteq> 0 then [''--mem_limit'', decimal_string (unat (memLimit s))] else []) t
      = count_list (if memLimit s \<noteq> 0 then [''--mem_limit''] else []) t
        + count_list (if memLimit s \<noteq> 0 then [decimal_string (unat (memLimit s))] else []) t"
    by simp
  have pa: "count_list (prog # args) t = count_list [prog] t + count_list args t"
    by simp
  show ?thesis
    unfolding BuildExecArgs_closed config_strings_def config_flags_def
    by (simp only: count_list_append count_file_tokens count_mountDir_tokens count_env_tokens
        count_optional m pa count_list_Cons2 filter_Cons2 ac_simps)
qed

lemma no_sep_config_flags: "count_list (config_flags s) ''--'' = 0"
  by (auto simp: config_flags_def count_list_0_iff)

lemma no_sep_mem_value:
  "count_list (if memLimit s \<noteq> 0 then [decimal_string (unat (memLimit s))] else []) ''--'' = 0"
  using decimal_string_no_dash [of "unat (memLimit s)"] by auto

lemmas part_defs =
  lists_part_def noNewNet_part_def cgroup_part_def cpuSet_part_def memLimit_part_def
  saveUsageStat_part_def execDir_part_def request_part_def

lemma BuildExecArgs_parts:
  "BuildExecArgs s prog args =
     lists_part s @ noNewNet_part s @ cgroup_part s @ cpuSet_part s @ memLimit_part s
     @ saveUsageStat_part s @ execDir_part s @ request_part prog args"
  unfolding part_defs by (simp only: BuildExecArgs_closed append_assoc)

lemma count_mem_value:
  "CHR ''-'' \<in> set t \<Longrightarrow>
   count_list (if memLimit s \<noteq> 0 then [decimal_string (unat (memLimit s))] else []) t = 0"
  using decimal_string_no_dash [of "unat (memLimit s)"] by auto

lemma count_flag_noNewNet:
  "count_list (config_flags s @ [''--'']) ''--no_new_net'' = (if noNewNet s then 1 else 0)"
  by (auto simp: config_flags_def count_list_0_iff)

lemma count_flag_cgroup: "cgroup s = [] \<Longrightarrow> count_list (config_flags s @ [''--'']) ''--cgroup'' = 0"
  by (auto simp: config_flags_def count_list_0_iff)

lemma count_flag_cpuSet: "cpuSet s = [] \<Longrightarrow> count_list (config_flags s @ [''--'']) ''--cpuset'' = 0"
  by (auto simp: config_flags_def count_list_0_iff)

lemma count_flag_memLimit: "memLimit s = 0 \<Longrightarrow> count_list (config_flags s @ [''--'']) ''--mem_limit'' = 0"
  by (auto simp: config_flags_def count_list_0_iff)

lemma count_flag_saveUsageStat:
  "saveUsageStat s = [] \<Longrightarrow> count_list (config_flags s @ [''--'']) ''--save_usage_stat'' = 0"
  by (auto simp: config_flags_def count_list_0_iff)

lemma count_flag_execDir: "execDir s = [] \<Longrightarrow> count_list (config_flags s @ [''--'']) ''--exec_dir'' = 0"
  by (auto simp: config_flags_def count_list_0_iff)

section \<open>Sequences of calls\<close>

lemma args_of_snoc:
  "args_of sel (cs @ [c]) = (case sel c of None \<Rightarrow> args_of sel cs | Some v \<Rightarrow> args_of sel cs @ [v])"
  by (simp add: args_of_def map_filter_def split: option.split)

lemma last_arg_Nil [simp]: "last_arg sel [] = None"
  by (simp add: last_arg_def args_of_def)

lemma last_arg_snoc:
  "last_arg sel (cs @ [c]) = (case sel c of None \<Rightarrow> last_arg sel cs | Some v \<Rightarrow> Some v)"
  by (simp add: last_arg_def args_of_snoc split: option.split)

lemma last_arg_cong: "args_of sel cs' = args_of sel cs \<Longrightarrow> last_arg sel cs' = last_arg sel cs"
  by (simp add: last_arg_def)

lemmas setter_defs =
  SetNoNewNet_def SetCGroup_def SetCpuSet_def SetMemLimit_def SaveUsageStat_def ExecDir_def

lemma noNewNet_fold_do_setter:
  "noNewNet (fold do_setter cs s) = (case last_arg arg_SetNoNewNet cs of None \<Rightarrow> noNewNet s | Some v \<Rightarrow> v)"
proof (induction cs rule: rev_induct)
  case Nil
  show ?case by simp
next
  case (snoc c cs)
  then show ?case
    by (cases c) (simp_all add: last_arg_snoc setter_defs)
qed

lemma cgroup_fold_do_setter:
  "cgroup (fold do_setter cs s) = (case last_arg arg_SetCGroup cs of None \<Rightarrow> cgroup s | Some v \<Rightarrow> v)"
proof (induction cs rule: rev_induct)
  case Nil
  show ?case by simp
next
  case (snoc c cs)
  then show ?case
    by (cases c) (simp_all add: last_arg_snoc setter_defs)
qed

lemma cpuSet_fold_do_setter:
  "cpuSet (fold do_setter cs s) = (case last_arg arg_SetCpuSet cs of None \<Rightarrow> cpuSet s | Some v \<Rightarrow> v)"
proof (induction cs rule: rev_induct)
  case Nil
  show ?case by simp
next
  case (snoc c cs)
  then show ?case
    by (cases c) (simp_all add: last_arg_snoc setter_defs)
qed

lemma memLimit_fold_do_setter:
  "memLimit (fold do_setter cs s) = (case last_arg arg_SetMemLimit cs of None \<Rightarrow> memLimit s | Some v \<Rightarrow> v)"
proof (induction cs rule: rev_induct)
  case Nil
  show ?case by simp
next
  case (snoc c cs)
  then show ?case
    by (cases c) (simp_all add: last_arg_snoc setter_defs)
qed

lemma saveUsageStat_fold_do_setter:
  "saveUsageStat (fold do_setter cs s) = (case last_arg arg_SaveUsageStat cs of None \<Rightarrow> saveUsageStat s | Some v \<Rightarrow> v)"
proof (induction cs rule: rev_induct)
  case Nil
  show ?case by simp
next
  case (snoc c cs)
  then show ?case
    by (cases c) (simp_all add: last_arg_snoc setter_defs)
qed

lemma execDir_fold_do_setter:
  "execDir (fold do_setter cs s) = (case last_arg arg_ExecDir cs of None \<Rightarrow> execDir s | Some v \<Rightarrow> v)"
proof (induction cs rule: rev_induct)
  case Nil
  show ?case by simp
next
  case (snoc c cs)
  then show ?case
    by (cases c) (simp_all add: last_arg_snoc setter_defs)
qed

lemma path_fold_do_setter: "path (fold do_setter cs s) = path s"
proof (induction cs rule: rev_induct)
  case Nil
  show ?case by simp
next
  case (snoc c cs)
  then show ?case
    by (cases c) (simp_all add: setter_defs)
qed

lemma files_fold_do_setter: "files (fold do_setter cs s) = files s"
proof (induction cs rule: rev_induct)
  case Nil
  show ?case by simp
next
  case (snoc c cs)
  then show ?case
    by (cases c) (simp_all add: setter_defs)
qed

lemma mountDirs_fold_do_setter: "mountDirs (fold do_setter cs s) = mountDirs s"
proof (induction cs rule: rev_induct)
  case Nil
  show ?case by simp
next
  case (snoc c cs)
  then show ?case
    by (cases c) (simp_all add: setter_defs)
qed

lemma env_fold_do_setter: "env (fold do_setter cs s) = env s"
proof (induction cs rule: rev_induct)
  case Nil
  show ?case by simp
next
  case (snoc c cs)
  then show ?case
    by (cases c) (simp_all add: setter_defs)
qed

lemmas fold_do_setter =
  noNewNet_fold_do_setter cgroup_fold_do_setter cpuSet_fold_do_setter memLimit_fold_do_setter
  saveUsageStat_fold_do_setter execDir_fold_do_setter path_fold_do_setter files_fold_do_setter
  mountDirs_fold_do_setter env_fold_do_setter

lemma files_do_add:
  "files (do_add c s) = files s @ List.map_filter added_file [c]"
  by (cases c) (simp_all add: AddFile_def MountDir_def AddEnv_def)

lemma mountDirs_do_add:
  "mountDirs (do_add c s) = mountDirs s @ List.map_filter added_mountDir [c]"
  by (cases c) (simp_all add: AddFile_def MountDir_def AddEnv_def)

lemma env_do_add:
  "env (do_add c s) = env s @ List.map_filter added_env [c]"
  by (cases c) (simp_all add: AddFile_def MountDir_def AddEnv_def)

lemma map_filter_Cons_append: "List.map_filter f (c # cs) = List.map_filter f [c] @ List.map_filter f cs"
  by (simp split: option.split)

lemma files_fold_do_add: "files (fold do_add cs s) = files s @ List.map_filter added_file cs"
proof (induction cs arbitrary: s)
  case Nil
  show ?case by simp
next
  case (Cons c cs)
  show ?case
    by (simp only: fold_simps Cons.IH files_do_add append_assoc map_filter_Cons_append [of _ c cs])
qed

lemma mountDirs_fold_do_add:
  "mountDirs (fold do_add cs s) = mountDirs s @ List.map_filter added_mountDir cs"
proof (induction cs arbitrary: s)
  case Nil
  show ?case by simp
next
  case (Cons c cs)
  show ?case
    by (simp only: fold_simps Cons.IH mountDirs_do_add append_assoc map_filter_Cons_append [of _ c cs])
qed

lemma env_fold_do_add: "env (fold do_add cs s) = env s @ List.map_filter added_env cs"
proof (induction cs arbitrary: s)
  case Nil
  show ?case by simp
next
  case (Cons c cs)
  show ?case
    by (simp only: fold_simps Cons.IH env_do_add append_assoc map_filter_Cons_append [of _ c cs])
qed

lemma scalars_do_add:
  "path (do_add c s) = path s" "noNewNet (do_add c s) = noNewNet s" "cgroup (do_add c s) = cgroup s"
  "cpuSet (do_add c s) = cpuSet s" "memLimit (do_add c s) = memLimit s"
  "saveUsageStat (do_add c s) = saveUsageStat s" "execDir (do_add c s) = execDir s"
  by (cases c; simp add: AddFile_def MountDir_def AddEnv_def)+

lemma scalars_fold_do_add:
  "path (fold do_add cs s) = path s \<and> noNewNet (fold do_add cs s) = noNewNet s
   \<and> cgroup (fold do_add cs s) = cgroup s \<and> cpuSet (fold do_add cs s) = cpuSet s
   \<and> memLimit (fold do_add cs s) = memLimit s \<and> saveUsageStat (fold do_add cs s) = saveUsageStat s
   \<and> execDir (fold do_add cs s) = execDir s"
  by (induction cs arbitrary: s) (simp_all add: scalars_do_add)

lemma decimal_string_7: "decimal_string 7 = ''7''"
  using digit_chars by (simp add: decimal_string_digit)

section \<open>The contract of BuildExecArgs\<close>

text \<open>
  C1. For every configuration and every execution request, \<^verbatim>\<open>BuildExecArgs\<close> returns the
  root path, then per \<^verbatim>\<open>files\<close> entry \<^verbatim>\<open>--add_elf_file\<close> (with libraries) or
  \<^verbatim>\<open>--add_file\<close> followed by src and dst, then per \<^verbatim>\<open>mountDirs\<close> entry \<^verbatim>\<open>--mount_dir\<close>,
  src, dst, then per \<^verbatim>\<open>env\<close> entry \<^verbatim>\<open>--env\<close> and the entry, then \<^verbatim>\<open>--no_new_net\<close> if
  set, then \<^verbatim>\<open>--cgroup\<close>, \<^verbatim>\<open>--cpuset\<close>, \<^verbatim>\<open>--mem_limit\<close>, \<^verbatim>\<open>--save_usage_stat\<close> and
  \<^verbatim>\<open>--exec_dir\<close> with their values where the field is not empty (not zero), then
  \<^verbatim>\<open>--\<close>, the program path and the program's arguments. The value of \<^verbatim>\<open>--mem_limit\<close> is
  the base-10 numeral of the limit: a string of decimal digits that denotes it, with no
  leading zero.
\<close>

theorem BuildExecArgs_contract:
  "BuildExecArgs s prog args =
     [path s]
     @ concat (map (\<lambda>f. [if withLibs f then ''--add_elf_file'' else ''--add_file'',
                          file_entry.src f, file_entry.dst f]) (files s))
     @ concat (map (\<lambda>d. [''--mount_dir'', mountDir.src d, mountDir.dst d]) (mountDirs s))
     @ concat (map (\<lambda>e. [''--env'', e]) (env s))
     @ (if noNewNet s then [''--no_new_net''] else [])
     @ (if cgroup s \<noteq> [] then [''--cgroup'', cgroup s] else [])
     @ (if cpuSet s \<noteq> [] then [''--cpuset'', cpuSet s] else [])
     @ (if memLimit s \<noteq> 0 then [''--mem_limit'', decimal_string (unat (memLimit s))] else [])
     @ (if saveUsageStat s \<noteq> [] then [''--save_usage_stat'', saveUsageStat s] else [])
     @ (if execDir s \<noteq> [] then [''--exec_dir'', execDir s] else [])
     @ [''--'', prog]
     @ args
   \<and> decimal_value (decimal_string (unat (memLimit s))) = unat (memLimit s)
   \<and> set (decimal_string (unat (memLimit s))) \<subseteq> set ''0123456789''
   \<and> (hd (decimal_string (unat (memLimit s))) = CHR ''0'') = (memLimit s = 0)"
proof -
  have ft: "file_tokens = (\<lambda>f. [if withLibs f then ''--add_elf_file'' else ''--add_file'',
                          file_entry.src f, file_entry.dst f])"
    by (rule ext) (simp add: file_tokens_def)
  have mt: "mountDir_tokens = (\<lambda>d. [''--mount_dir'', mountDir.src d, mountDir.dst d])"
    by (rule ext) (simp add: mountDir_tokens_def)
  have et: "env_tokens = (\<lambda>e. [''--env'', e])"
    by (rule ext) (simp add: env_tokens_def)
  have "set (decimal_string (unat (memLimit s))) \<subseteq> set ''0123456789''"
    using decimal_string_digits by blast
  moreover have "(hd (decimal_string (unat (memLimit s))) = CHR ''0'') = (memLimit s = 0)"
    by (simp only: decimal_string_hd unat_eq_0)
  ultimately show ?thesis
    using BuildExecArgs_closed [of s prog args]
    by (simp only: ft mt et decimal_value_decimal_string simp_thms)
qed

text \<open>
  C2. The two worked examples: the configuration built by \<^verbatim>\<open>New("/tmp/sb")\<close>,
  \<^verbatim>\<open>AddFile("/bin/go", "/bin/go", true)\<close>, \<^verbatim>\<open>AddEnv("PATH=/usr/bin")\<close>,
  \<^verbatim>\<open>SetNoNewNet(true)\<close>, \<^verbatim>\<open>SetMemLimit(536870912)\<close>, compiled against \<^verbatim>\<open>go test ./...\<close>,
  and the unconfigured \<^verbatim>\<open>New("/x")\<close> compiled against \<^verbatim>\<open>echo hi\<close>, give exactly the
  listed vectors.
\<close>

theorem worked_examples:
  "BuildExecArgs
     (SetMemLimit 536870912 (SetNoNewNet True (AddEnv ''PATH=/usr/bin''
        (AddFile ''/bin/go'' ''/bin/go'' True (New ''/tmp/sb'')))))
     ''go'' [''test'', ''./...'']
   = [''/tmp/sb'', ''--add_elf_file'', ''/bin/go'', ''/bin/go'', ''--env'', ''PATH=/usr/bin'',
      ''--no_new_net'', ''--mem_limit'', ''536870912'', ''--'', ''go'', ''test'', ''./...'']
   \<and> BuildExecArgs (New ''/x'') ''echo'' [''hi''] = [''/x'', ''--'', ''echo'', ''hi'']"
  by (simp add: BuildExecArgs_closed New_def AddFile_def AddEnv_def SetNoNewNet_def SetMemLimit_def
      file_tokens_def env_tokens_def decimal_string_536870912)

text \<open>
  C3, as stated, fails: the token \<^verbatim>\<open>--\<close> appears twice when the program is given the
  argument \<^verbatim>\<open>--\<close>. The strings of the caller are passed through as they are.
\<close>

theorem separator_twice:
  "BuildExecArgs (New ''/x'') ''echo'' [''--''] = [''/x'', ''--'', ''echo'', ''--'']
   \<and> count_list (BuildExecArgs (New ''/x'') ''echo'' [''--'']) ''--'' = 2"
  by (simp add: BuildExecArgs_closed New_def)

text \<open>
  C3, amended. \<^verbatim>\<open>BuildExecArgs\<close> writes the separator once, immediately before the program
  path: the vector is a prefix that depends on the configuration only, then \<^verbatim>\<open>--\<close>, the
  program path and the arguments. The vector holds one \<^verbatim>\<open>--\<close> more than there are
  strings of the caller (root path, src and dst of files and mounts, env entries, the
  optional strings that are set, program path, arguments) equal to \<^verbatim>\<open>--\<close>; so the token
  appears exactly once exactly when no string of the caller is \<^verbatim>\<open>--\<close>.
\<close>

theorem separator_emitted_once:
  "(\<exists>pre. (\<forall>prog args. BuildExecArgs s prog args = pre @ [''--'', prog] @ args)
          \<and> count_list pre ''--'' = count_list (config_strings s) ''--'')
   \<and> count_list (BuildExecArgs s prog args) ''--''
       = Suc (count_list (config_strings s @ prog # args) ''--'')
   \<and> ((count_list (BuildExecArgs s prog args) ''--'' = 1)
       = (''--'' \<notin> set (config_strings s @ prog # args)))"
proof -
  define pre where "pre = take (length (BuildExecArgs s [] []) - 2) (BuildExecArgs s [] [])"
  have dec: "BuildExecArgs s p a = pre @ [''--'', p] @ a" for p a
    by (simp add: pre_def BuildExecArgs_closed)
  have cnt: "count_list (BuildExecArgs s p a) ''--''
      = Suc (count_list (config_strings s @ p # a) ''--'')" for p a
    by (simp only: count_BuildExecArgs [of s p a "''--''"] count_list_append
        no_sep_config_flags no_sep_mem_value) simp
  have "count_list (pre @ [''--'', []] @ []) ''--'' = Suc (count_list (config_strings s @ [[]]) ''--'')"
    using cnt [of "[]" "[]"] by (simp only: dec)
  then have "count_list pre ''--'' = count_list (config_strings s) ''--''"
    by simp
  with dec have 1: "\<exists>pre. (\<forall>prog args. BuildExecArgs s prog args = pre @ [''--'', prog] @ args)
          \<and> count_list pre ''--'' = count_list (config_strings s) ''--''"
    by blast
  have 3: "(count_list (BuildExecArgs s prog args) ''--'' = 1)
       = (''--'' \<notin> set (config_strings s @ prog # args))"
    by (simp only: cnt count_list_0_iff [symmetric]) simp
  from 1 cnt 3 show ?thesis by blast
qed

text \<open>
  C4. After any sequence of calls to \<^verbatim>\<open>SetNoNewNet\<close>, \<^verbatim>\<open>SetCGroup\<close>, \<^verbatim>\<open>SetCpuSet\<close>,
  \<^verbatim>\<open>SetMemLimit\<close>, \<^verbatim>\<open>SaveUsageStat\<close> and \<^verbatim>\<open>ExecDir\<close>, each scalar field holds the last
  value passed to its setter (its old value when the setter was not called), and the
  other fields are untouched. Two sequences in which every setter receives the same
  values in the same order, however the calls to different setters are interleaved,
  leave the same configuration.
\<close>

theorem setters_last_write_wins:
  "noNewNet (fold do_setter cs s)
     = (case last_arg arg_SetNoNewNet cs of None \<Rightarrow> noNewNet s | Some v \<Rightarrow> v)
   \<and> cgroup (fold do_setter cs s)
     = (case last_arg arg_SetCGroup cs of None \<Rightarrow> cgroup s | Some v \<Rightarrow> v)
   \<and> cpuSet (fold do_setter cs s)
     = (case last_arg arg_SetCpuSet cs of None \<Rightarrow> cpuSet s | Some v \<Rightarrow> v)
   \<and> memLimit (fold do_setter cs s)
     = (case last_arg arg_SetMemLimit cs of None \<Rightarrow> memLimit s | Some v \<Rightarrow> v)
   \<and> saveUsageStat (fold do_setter cs s)
     = (case last_arg arg_SaveUsageStat cs of None \<Rightarrow> saveUsageStat s | Some v \<Rightarrow> v)
   \<and> execDir (fold do_setter cs s)
     = (case last_arg arg_ExecDir cs of None \<Rightarrow> execDir s | Some v \<Rightarrow> v)
   \<and> path (fold do_setter cs s) = path s
   \<and> files (fold do_setter cs s) = files s
   \<and> mountDirs (fold do_setter cs s) = mountDirs s
   \<and> env (fold do_setter cs s) = env s
   \<and> (args_of arg_SetNoNewNet cs' = args_of arg_SetNoNewNet cs
      \<and> args_of arg_SetCGroup cs' = args_of arg_SetCGroup cs
      \<and> args_of arg_SetCpuSet cs' = args_of arg_SetCpuSet cs
      \<and> args_of arg_SetMemLimit cs' = args_of arg_SetMemLimit cs
      \<and> args_of arg_SaveUsageStat cs' = args_of arg_SaveUsageStat cs
      \<and> args_of arg_ExecDir cs' = args_of arg_ExecDir cs
      \<longrightarrow> fold do_setter cs' s = fold do_setter cs s)"
proof -
  have "fold do_setter cs' s = fold do_setter cs s"
    if "args_of arg_SetNoNewNet cs' = args_of arg_SetNoNewNet cs"
      and "args_of arg_SetCGroup cs' = args_of arg_SetCGroup cs"
      and "args_of arg_SetCpuSet cs' = args_of arg_SetCpuSet cs"
      and "args_of arg_SetMemLimit cs' = args_of arg_SetMemLimit cs"
      and "args_of arg_SaveUsageStat cs' = args_of arg_SaveUsageStat cs"
      and "args_of arg_ExecDir cs' = args_of arg_ExecDir cs"
    by (rule Sandbox.equality) (simp_all only: fold_do_setter last_arg_cong [OF that(1)]
        last_arg_cong [OF that(2)] last_arg_cong [OF that(3)] last_arg_cong [OF that(4)]
        last_arg_cong [OF that(5)] last_arg_cong [OF that(6)], simp)
  then have "args_of arg_SetNoNewNet cs' = args_of arg_SetNoNewNet cs
      \<and> args_of arg_SetCGroup cs' = args_of arg_SetCGroup cs
      \<and> args_of arg_SetCpuSet cs' = args_of arg_SetCpuSet cs
      \<and> args_of arg_SetMemLimit cs' = args_of arg_SetMemLimit cs
      \<and> args_of arg_SaveUsageStat cs' = args_of arg_SaveUsageStat cs
      \<and> args_of arg_ExecDir cs' = args_of arg_ExecDir cs
      \<longrightarrow> fold do_setter cs' s = fold do_setter cs s"
    by blast
  then show ?thesis
    by (intro conjI) (simp_all only: fold_do_setter)
qed

theorem setters_last_write_wins_witness:
  "args_of arg_SetNoNewNet [Call_SetMemLimit 5, Call_SetCGroup ''a'', Call_SetCGroup ''b'']
     = args_of arg_SetNoNewNet [Call_SetCGroup ''a'', Call_SetMemLimit 5, Call_SetCGroup ''b'']
   \<and> args_of arg_SetCGroup [Call_SetMemLimit 5, Call_SetCGroup ''a'', Call_SetCGroup ''b'']
     = args_of arg_SetCGroup [Call_SetCGroup ''a'', Call_SetMemLimit 5, Call_SetCGroup ''b'']
   \<and> args_of arg_SetCpuSet [Call_SetMemLimit 5, Call_SetCGroup ''a'', Call_SetCGroup ''b'']
     = args_of arg_SetCpuSet [Call_SetCGroup ''a'', Call_SetMemLimit 5, Call_SetCGroup ''b'']
   \<and> args_of arg_SetMemLimit [Call_SetMemLimit 5, Call_SetCGroup ''a'', Call_SetCGroup ''b'']
     = args_of arg_SetMemLimit [Call_SetCGroup ''a'', Call_SetMemLimit 5, Call_SetCGroup ''b'']
   \<and> args_of arg_SaveUsageStat [Call_SetMemLimit 5, Call_SetCGroup ''a'', Call_SetCGroup ''b'']
     = args_of arg_SaveUsageStat [Call_SetCGroup ''a'', Call_SetMemLimit 5, Call_SetCGroup ''b'']
   \<and> args_of arg_ExecDir [Call_SetMemLimit 5, Call_SetCGroup ''a'', Call_SetCGroup ''b'']
     = args_of arg_ExecDir [Call_SetCGroup ''a'', Call_SetMemLimit 5, Call_SetCGroup ''b'']
   \<and> fold do_setter [Call_SetMemLimit 5, Call_SetCGroup ''a'', Call_SetCGroup ''b''] (New ''/x'')
     = fold do_setter [Call_SetCGroup ''a'', Call_SetMemLimit 5, Call_SetCGroup ''b''] (New ''/x'')
   \<and> cgroup (fold do_setter [Call_SetCGroup ''a'', Call_SetMemLimit 5, Call_SetCGroup ''b''] (New ''/x''))
     = ''b''"
proof -
  have h: "args_of arg_SetNoNewNet [Call_SetMemLimit 5, Call_SetCGroup ''a'', Call_SetCGroup ''b'']
     = args_of arg_SetNoNewNet [Call_SetCGroup ''a'', Call_SetMemLimit 5, Call_SetCGroup ''b'']
   \<and> args_of arg_SetCGroup [Call_SetMemLimit 5, Call_SetCGroup ''a'', Call_SetCGroup ''b'']
     = args_of arg_SetCGroup [Call_SetCGroup ''a'', Call_SetMemLimit 5, Call_SetCGroup ''b'']
   \<and> args_of arg_SetCpuSet [Call_SetMemLimit 5, Call_SetCGroup ''a'', Call_SetCGroup ''b'']
     = args_of arg_SetCpuSet [Call_SetCGroup ''a'', Call_SetMemLimit 5, Call_SetCGroup ''b'']
   \<and> args_of arg_SetMemLimit [Call_SetMemLimit 5, Call_SetCGroup ''a'', Call_SetCGroup ''b'']
     = args_of arg_SetMemLimit [Call_SetCGroup ''a'', Call_SetMemLimit 5, Call_SetCGroup ''b'']
   \<and> args_of arg_SaveUsageStat [Call_SetMemLimit 5, Call_SetCGroup ''a'', Call_SetCGroup ''b'']
     = args_of arg_SaveUsageStat [Call_SetCGroup ''a'', Call_SetMemLimit 5, Call_SetCGroup ''b'']
   \<and> args_of arg_ExecDir [Call_SetMemLimit 5, Call_SetCGroup ''a'', Call_SetCGroup ''b'']
     = args_of arg_ExecDir [Call_SetCGroup ''a'', Call_SetMemLimit 5, Call_SetCGroup ''b'']"
    by (simp add: args_of_def)
  have l: "last_arg arg_SetCGroup [Call_SetCGroup ''a'', Call_SetMemLimit 5, Call_SetCGroup ''b'']
      = Some ''b''"
    by (simp add: last_arg_def args_of_def)
  note t = setters_last_write_wins
    [of "[Call_SetCGroup ''a'', Call_SetMemLimit 5, Call_SetCGroup ''b'']" "New ''/x''"
        "[Call_SetMemLimit 5, Call_SetCGroup ''a'', Call_SetCGroup ''b'']"]
  from t h have "fold do_setter [Call_SetMemLimit 5, Call_SetCGroup ''a'', Call_SetCGroup ''b''] (New ''/x'')
     = fold do_setter [Call_SetCGroup ''a'', Call_SetMemLimit 5, Call_SetCGroup ''b''] (New ''/x'')"
    by blast
  moreover from t l have "cgroup (fold do_setter [Call_SetCGroup ''a'', Call_SetMemLimit 5, Call_SetCGroup ''b''] (New ''/x''))
     = ''b''"
    by (simp only: option.case)
  ultimately show ?thesis using h by blast
qed

text \<open>
  C5. After any sequence of \<^verbatim>\<open>AddFile\<close>, \<^verbatim>\<open>MountDir\<close> and \<^verbatim>\<open>AddEnv\<close> calls, each list
  field is its old content followed by the entries of the calls to its method, one per
  call, in call order, duplicates kept; and the vector of \<^verbatim>\<open>BuildExecArgs\<close> lists the
  tokens of these entries in that order. On a fresh \<^verbatim>\<open>New(p)\<close> the vector is \<^verbatim>\<open>p\<close>, the
  tokens of the inserted entries, the separator and the request.
\<close>

theorem insertion_order:
  "files (fold do_add cs s) = files s @ List.map_filter added_file cs
   \<and> mountDirs (fold do_add cs s) = mountDirs s @ List.map_filter added_mountDir cs
   \<and> env (fold do_add cs s) = env s @ List.map_filter added_env cs
   \<and> BuildExecArgs (fold do_add cs s) prog args =
       [path s]
       @ concat (map file_tokens (files s @ List.map_filter added_file cs))
       @ concat (map mountDir_tokens (mountDirs s @ List.map_filter added_mountDir cs))
       @ concat (map env_tokens (env s @ List.map_filter added_env cs))
       @ (if noNewNet s then [''--no_new_net''] else [])
       @ (if cgroup s \<noteq> [] then [''--cgroup'', cgroup s] else [])
       @ (if cpuSet s \<noteq> [] then [''--cpuset'', cpuSet s] else [])
       @ (if memLimit s \<noteq> 0 then [''--mem_limit'', decimal_string (unat (memLimit s))] else [])
       @ (if saveUsageStat s \<noteq> [] then [''--save_usage_stat'', saveUsageStat s] else [])
       @ (if execDir s \<noteq> [] then [''--exec_dir'', execDir s] else [])
       @ [''--'', prog] @ args
   \<and> BuildExecArgs (fold do_add cs (New p)) prog args =
       [p]
       @ concat (map file_tokens (List.map_filter added_file cs))
       @ concat (map mountDir_tokens (List.map_filter added_mountDir cs))
       @ concat (map env_tokens (List.map_filter added_env cs))
       @ [''--'', prog] @ args"
proof -
  have 1: "BuildExecArgs (fold do_add cs s) prog args =
       [path s]
       @ concat (map file_tokens (files s @ List.map_filter added_file cs))
       @ concat (map mountDir_tokens (mountDirs s @ List.map_filter added_mountDir cs))
       @ concat (map env_tokens (env s @ List.map_filter added_env cs))
       @ (if noNewNet s then [''--no_new_net''] else [])
       @ (if cgroup s \<noteq> [] then [''--cgroup'', cgroup s] else [])
       @ (if cpuSet s \<noteq> [] then [''--cpuset'', cpuSet s] else [])
       @ (if memLimit s \<noteq> 0 then [''--mem_limit'', decimal_string (unat (memLimit s))] else [])
       @ (if saveUsageStat s \<noteq> [] then [''--save_usage_stat'', saveUsageStat s] else [])
       @ (if execDir s \<noteq> [] then [''--exec_dir'', execDir s] else [])
       @ [''--'', prog] @ args" for s
    by (simp only: BuildExecArgs_closed files_fold_do_add mountDirs_fold_do_add env_fold_do_add
        scalars_fold_do_add)
  have 2: "BuildExecArgs (fold do_add cs (New p)) prog args =
       [p]
       @ concat (map file_tokens (List.map_filter added_file cs))
       @ concat (map mountDir_tokens (List.map_filter added_mountDir cs))
       @ concat (map env_tokens (List.map_filter added_env cs))
       @ [''--'', prog] @ args"
    unfolding 1 [of "New p"] by (simp add: New_def)
  from 1 2 show ?thesis
    by (simp only: files_fold_do_add mountDirs_fold_do_add env_fold_do_add simp_thms)
qed

text \<open>
  C6, as stated, fails in its first half: with \<^verbatim>\<open>cgroup\<close> at its default, the
  configuration \<^verbatim>\<open>New("/x")\<close> with \<^verbatim>\<open>AddEnv("--cgroup")\<close> compiles to a vector that holds
  the token \<^verbatim>\<open>--cgroup\<close>. The strings of the caller are passed through as they are.
\<close>

theorem flag_token_present_at_default:
  "cgroup (AddEnv ''--cgroup'' (New ''/x'')) = []
   \<and> BuildExecArgs (AddEnv ''--cgroup'' (New ''/x'')) ''p'' []
       = [''/x'', ''--env'', ''--cgroup'', ''--'', ''p'']
   \<and> ''--cgroup'' \<in> set (BuildExecArgs (AddEnv ''--cgroup'' (New ''/x'')) ''p'' [])"
  by (simp add: BuildExecArgs_closed New_def AddEnv_def env_tokens_def)

text \<open>
  C6, amended. For each of \<^verbatim>\<open>cgroup\<close>, \<^verbatim>\<open>cpuSet\<close>, \<^verbatim>\<open>memLimit\<close>, \<^verbatim>\<open>saveUsageStat\<close> and
  \<^verbatim>\<open>execDir\<close>: with the field at its default (empty string, zero), the compiler writes
  no token for it. The output is the part before the field's position followed
  directly by the part after it, and the flag occurs in the output exactly as often as
  among the strings of the caller (root path, src and dst of files and mounts, env
  entries, the optional strings that are set, program path, arguments). Setting the
  field to a value that is not the default gives the same two parts with exactly the
  flag and the value between them.
\<close>

theorem optional_fields_omitted:
  "(cgroup s = [] \<longrightarrow>
      BuildExecArgs s prog args =
        (lists_part s @ noNewNet_part s)
        @ (cpuSet_part s @ memLimit_part s @ saveUsageStat_part s @ execDir_part s
           @ request_part prog args))
   \<and> (g \<noteq> [] \<longrightarrow>
      BuildExecArgs (SetCGroup g s) prog args =
        (lists_part s @ noNewNet_part s)
        @ [''--cgroup'', g]
        @ (cpuSet_part s @ memLimit_part s @ saveUsageStat_part s @ execDir_part s
           @ request_part prog args))
   \<and> (cgroup s = [] \<longrightarrow>
      count_list (BuildExecArgs s prog args) ''--cgroup''
        = count_list (config_strings s @ prog # args) ''--cgroup'')
   \<and> (cpuSet s = [] \<longrightarrow>
      BuildExecArgs s prog args =
        (lists_part s @ noNewNet_part s @ cgroup_part s)
        @ (memLimit_part s @ saveUsageStat_part s @ execDir_part s @ request_part prog args))
   \<and> (c \<noteq> [] \<longrightarrow>
      BuildExecArgs (SetCpuSet c s) prog args =
        (lists_part s @ noNewNet_part s @ cgroup_part s)
        @ [''--cpuset'', c]
        @ (memLimit_part s @ saveUsageStat_part s @ execDir_part s @ request_part prog args))
   \<and> (cpuSet s = [] \<longrightarrow>
      count_list (BuildExecArgs s prog args) ''--cpuset''
        = count_list (config_strings s @ prog # args) ''--cpuset'')
   \<and> (memLimit s = 0 \<longrightarrow>
      BuildExecArgs s prog args =
        (lists_part s @ noNewNet_part s @ cgroup_part s @ cpuSet_part s)
        @ (saveUsageStat_part s @ execDir_part s @ request_part prog args))
   \<and> (m \<noteq> 0 \<longrightarrow>
      BuildExecArgs (SetMemLimit m s) prog args =
        (lists_part s @ noNewNet_part s @ cgroup_part s @ cpuSet_part s)
        @ [''--mem_limit'', decimal_string (unat m)]
        @ (saveUsageStat_part s @ execDir_part s @ request_part prog args))
   \<and> (memLimit s = 0 \<longrightarrow>
      count_list (BuildExecArgs s prog args) ''--mem_limit''
        = count_list (config_strings s @ prog # args) ''--mem_limit'')
   \<and> (saveUsageStat s = [] \<longrightarrow>
      BuildExecArgs s prog args =
        (lists_part s @ noNewNet_part s @ cgroup_part s @ cpuSet_part s @ memLimit_part s)
        @ (execDir_part s @ request_part prog args))
   \<and> (u \<noteq> [] \<longrightarrow>
      BuildExecArgs (SaveUsageStat u s) prog args =
        (lists_part s @ noNewNet_part s @ cgroup_part s @ cpuSet_part s @ memLimit_part s)
        @ [''--save_usage_stat'', u]
        @ (execDir_part s @ request_part prog args))
   \<and> (saveUsageStat s = [] \<longrightarrow>
      count_list (BuildExecArgs s prog args) ''--save_usage_stat''
        = count_list (config_strings s @ prog # args) ''--save_usage_stat'')
   \<and> (execDir s = [] \<longrightarrow>
      BuildExecArgs s prog args =
        (lists_part s @ noNewNet_part s @ cgroup_part s @ cpuSet_part s @ memLimit_part s
         @ saveUsageStat_part s)
        @ request_part prog args)
   \<and> (d \<noteq> [] \<longrightarrow>
      BuildExecArgs (ExecDir d s) prog args =
        (lists_part s @ noNewNet_part s @ cgroup_part s @ cpuSet_part s @ memLimit_part s
         @ saveUsageStat_part s)
        @ [''--exec_dir'', d]
        @ request_part prog args)
   \<and> (execDir s = [] \<longrightarrow>
      count_list (BuildExecArgs s prog args) ''--exec_dir''
        = count_list (config_strings s @ prog # args) ''--exec_dir'')"
proof -
  have cnt: "count_list (BuildExecArgs s prog args) t = count_list (config_strings s @ prog # args) t"
    if "count_list (config_flags s @ [''--'']) t = 0" and "CHR ''-'' \<in> set t" for t
    using that by (simp only: count_BuildExecArgs [of s prog args t] count_mem_value add_0_right)
  have c1: "cgroup s = [] \<longrightarrow>
      count_list (BuildExecArgs s prog args) ''--cgroup''
        = count_list (config_strings s @ prog # args) ''--cgroup''"
    using cnt [OF count_flag_cgroup] by simp
  have c2: "cpuSet s = [] \<longrightarrow>
      count_list (BuildExecArgs s prog args) ''--cpuset''
        = count_list (config_strings s @ prog # args) ''--cpuset''"
    using cnt [OF count_flag_cpuSet] by simp
  have c3: "memLimit s = 0 \<longrightarrow>
      count_list (BuildExecArgs s prog args) ''--mem_limit''
        = count_list (config_strings s @ prog # args) ''--mem_limit''"
    using cnt [OF count_flag_memLimit] by simp
  have c4: "saveUsageStat s = [] \<longrightarrow>
      count_list (BuildExecArgs s prog args) ''--save_usage_stat''
        = count_list (config_strings s @ prog # args) ''--save_usage_stat''"
    using cnt [OF count_flag_saveUsageStat] by simp
  have c5: "execDir s = [] \<longrightarrow>
      count_list (BuildExecArgs s prog args) ''--exec_dir''
        = count_list (config_strings s @ prog # args) ''--exec_dir''"
    using cnt [OF count_flag_execDir] by simp
  have o: "cgroup s = [] \<Longrightarrow> cgroup_part s = []" "cpuSet s = [] \<Longrightarrow> cpuSet_part s = []"
    "memLimit s = 0 \<Longrightarrow> memLimit_part s = []" "saveUsageStat s = [] \<Longrightarrow> saveUsageStat_part s = []"
    "execDir s = [] \<Longrightarrow> execDir_part s = []"
    by (simp_all add: part_defs)
  have i1: "g \<noteq> [] \<Longrightarrow> BuildExecArgs (SetCGroup g s) prog args =
        (lists_part s @ noNewNet_part s)
        @ [''--cgroup'', g]
        @ (cpuSet_part s @ memLimit_part s @ saveUsageStat_part s @ execDir_part s
           @ request_part prog args)"
    by (simp add: BuildExecArgs_parts) (simp add: part_defs setter_defs)
  have i2: "c \<noteq> [] \<Longrightarrow> BuildExecArgs (SetCpuSet c s) prog args =
        (lists_part s @ noNewNet_part s @ cgroup_part s)
        @ [''--cpuset'', c]
        @ (memLimit_part s @ saveUsageStat_part s @ execDir_part s @ request_part prog args)"
    by (simp add: BuildExecArgs_parts) (simp add: part_defs setter_defs)
  have i3: "m \<noteq> 0 \<Longrightarrow> BuildExecArgs (SetMemLimit m s) prog args =
        (lists_part s @ noNewNet_part s @ cgroup_part s @ cpuSet_part s)
        @ [''--mem_limit'', decimal_string (unat m)]
        @ (saveUsageStat_part s @ execDir_part s @ request_part prog args)"
    by (simp add: BuildExecArgs_parts) (simp add: part_defs setter_defs)
  have i4: "u \<noteq> [] \<Longrightarrow> BuildExecArgs (SaveUsageStat u s) prog args =
        (lists_part s @ noNewNet_part s @ cgroup_part s @ cpuSet_part s @ memLimit_part s)
        @ [''--save_usage_stat'', u]
        @ (execDir_part s @ request_part prog args)"
    by (simp add: BuildExecArgs_parts) (simp add: part_defs setter_defs)
  have i5: "d \<noteq> [] \<Longrightarrow> BuildExecArgs (ExecDir d s) prog args =
        (lists_part s @ noNewNet_part s @ cgroup_part s @ cpuSet_part s @ memLimit_part s
         @ saveUsageStat_part s)
        @ [''--exec_dir'', d]
        @ request_part prog args"
    by (simp add: BuildExecArgs_parts) (simp add: part_defs setter_defs)
  show ?thesis
    by (intro conjI impI c1 [rule_format] c2 [rule_format] c3 [rule_format] c4 [rule_format]
        c5 [rule_format] i1 i2 i3 i4 i5; simp add: BuildExecArgs_parts o)
qed

theorem optional_fields_omitted_witness:
  "cgroup (AddEnv ''A=1'' (SetNoNewNet True (New ''/x''))) = []
   \<and> cpuSet (AddEnv ''A=1'' (SetNoNewNet True (New ''/x''))) = []
   \<and> memLimit (AddEnv ''A=1'' (SetNoNewNet True (New ''/x''))) = 0
   \<and> saveUsageStat (AddEnv ''A=1'' (SetNoNewNet True (New ''/x''))) = []
   \<and> execDir (AddEnv ''A=1'' (SetNoNewNet True (New ''/x''))) = []
   \<and> BuildExecArgs (AddEnv ''A=1'' (SetNoNewNet True (New ''/x''))) ''echo'' [''hi''] = [''/x'', ''--env'', ''A=1'', ''--no_new_net'', ''--'', ''echo'', ''hi'']
   \<and> BuildExecArgs (SetCGroup ''g'' (AddEnv ''A=1'' (SetNoNewNet True (New ''/x'')))) ''echo'' [''hi'']
       = [''/x'', ''--env'', ''A=1'', ''--no_new_net'', ''--cgroup'', ''g'', ''--'', ''echo'', ''hi'']
   \<and> count_list (BuildExecArgs (AddEnv ''A=1'' (SetNoNewNet True (New ''/x''))) ''echo'' [''hi'']) ''--cgroup'' = 0
   \<and> BuildExecArgs (SetCpuSet ''0-3'' (AddEnv ''A=1'' (SetNoNewNet True (New ''/x'')))) ''echo'' [''hi'']
       = [''/x'', ''--env'', ''A=1'', ''--no_new_net'', ''--cpuset'', ''0-3'', ''--'', ''echo'', ''hi'']
   \<and> count_list (BuildExecArgs (AddEnv ''A=1'' (SetNoNewNet True (New ''/x''))) ''echo'' [''hi'']) ''--cpuset'' = 0
   \<and> BuildExecArgs (SetMemLimit 7 (AddEnv ''A=1'' (SetNoNewNet True (New ''/x'')))) ''echo'' [''hi'']
       = [''/x'', ''--env'', ''A=1'', ''--no_new_net'', ''--mem_limit'', ''7'', ''--'', ''echo'', ''hi'']
   \<and> count_list (BuildExecArgs (AddEnv ''A=1'' (SetNoNewNet True (New ''/x''))) ''echo'' [''hi'']) ''--mem_limit'' = 0
   \<and> BuildExecArgs (SaveUsageStat ''/s'' (AddEnv ''A=1'' (SetNoNewNet True (New ''/x'')))) ''echo'' [''hi'']
       = [''/x'', ''--env'', ''A=1'', ''--no_new_net'', ''--save_usage_stat'', ''/s'', ''--'', ''echo'', ''hi'']
   \<and> count_list (BuildExecArgs (AddEnv ''A=1'' (SetNoNewNet True (New ''/x''))) ''echo'' [''hi'']) ''--save_usage_stat'' = 0
   \<and> BuildExecArgs (ExecDir ''/w'' (AddEnv ''A=1'' (SetNoNewNet True (New ''/x'')))) ''echo'' [''hi'']
       = [''/x'', ''--env'', ''A=1'', ''--no_new_net'', ''--exec_dir'', ''/w'', ''--'', ''echo'', ''hi'']
   \<and> count_list (BuildExecArgs (AddEnv ''A=1'' (SetNoNewNet True (New ''/x''))) ''echo'' [''hi'']) ''--exec_dir'' = 0"
proof -
  note t = optional_fields_omitted
    [where s = "(AddEnv ''A=1'' (SetNoNewNet True (New ''/x'')))" and prog = "''echo''" and args = "[''hi'']"
       and g = "''g''" and c = "''0-3''" and m = 7 and u = "''/s''" and d = "''/w''"]
  have d: "cgroup (AddEnv ''A=1'' (SetNoNewNet True (New ''/x''))) = []" "cpuSet (AddEnv ''A=1'' (SetNoNewNet True (New ''/x''))) = []" "memLimit (AddEnv ''A=1'' (SetNoNewNet True (New ''/x''))) = 0"
    "saveUsageStat (AddEnv ''A=1'' (SetNoNewNet True (New ''/x''))) = []" "execDir (AddEnv ''A=1'' (SetNoNewNet True (New ''/x''))) = []"
    by (simp_all add: New_def AddEnv_def SetNoNewNet_def)
  have n: "''g'' \<noteq> []" "''0-3'' \<noteq> []" "(7 :: 64 word) \<noteq> 0" "''/s'' \<noteq> []" "''/w'' \<noteq> []"
    by simp_all
  have p: "lists_part (AddEnv ''A=1'' (SetNoNewNet True (New ''/x''))) = [''/x'', ''--env'', ''A=1'']"
    "noNewNet_part (AddEnv ''A=1'' (SetNoNewNet True (New ''/x''))) = [''--no_new_net'']"
    "cgroup_part (AddEnv ''A=1'' (SetNoNewNet True (New ''/x''))) = []" "cpuSet_part (AddEnv ''A=1'' (SetNoNewNet True (New ''/x''))) = []" "memLimit_part (AddEnv ''A=1'' (SetNoNewNet True (New ''/x''))) = []"
    "saveUsageStat_part (AddEnv ''A=1'' (SetNoNewNet True (New ''/x''))) = []" "execDir_part (AddEnv ''A=1'' (SetNoNewNet True (New ''/x''))) = []"
    "request_part ''echo'' [''hi''] = [''--'', ''echo'', ''hi'']"
    by (simp_all add: part_defs New_def AddEnv_def SetNoNewNet_def env_tokens_def)
  have c: "config_strings (AddEnv ''A=1'' (SetNoNewNet True (New ''/x''))) @ [''echo'', ''hi''] = [''/x'', ''A=1'', ''echo'', ''hi'']"
    by (simp add: config_strings_def New_def AddEnv_def SetNoNewNet_def)
  from t d n show ?thesis
    by (simp only: simp_thms p c) (simp add: decimal_string_7)
qed

text \<open>
  C7. With \<^verbatim>\<open>noNewNet\<close> false nothing stands between the tokens of the list fields and
  the part of \<^verbatim>\<open>cgroup\<close>; with \<^verbatim>\<open>noNewNet\<close> true exactly the one token \<^verbatim>\<open>--no_new_net\<close>
  stands there, with no value after it. The two parts around it do not depend on
  \<^verbatim>\<open>noNewNet\<close>. The compiler writes the token once when the field is true and never when
  it is false: the remaining tokens spelled \<^verbatim>\<open>--no_new_net\<close> are strings of the caller's.
\<close>

theorem noNewNet_flag:
  "(\<not> noNewNet s \<longrightarrow>
      BuildExecArgs s prog args =
        lists_part s
        @ cgroup_part s @ cpuSet_part s @ memLimit_part s @ saveUsageStat_part s @ execDir_part s
        @ request_part prog args)
   \<and> (noNewNet s \<longrightarrow>
      BuildExecArgs s prog args =
        lists_part s @ [''--no_new_net'']
        @ cgroup_part s @ cpuSet_part s @ memLimit_part s @ saveUsageStat_part s @ execDir_part s
        @ request_part prog args)
   \<and> BuildExecArgs (SetNoNewNet False s) prog args =
        lists_part s
        @ cgroup_part s @ cpuSet_part s @ memLimit_part s @ saveUsageStat_part s @ execDir_part s
        @ request_part prog args
   \<and> BuildExecArgs (SetNoNewNet True s) prog args =
        lists_part s @ [''--no_new_net'']
        @ cgroup_part s @ cpuSet_part s @ memLimit_part s @ saveUsageStat_part s @ execDir_part s
        @ request_part prog args
   \<and> count_list (BuildExecArgs s prog args) ''--no_new_net''
       = count_list (config_strings s @ prog # args) ''--no_new_net''
         + (if noNewNet s then 1 else 0)"
proof -
  have "count_list (BuildExecArgs s prog args) ''--no_new_net''
       = count_list (config_strings s @ prog # args) ''--no_new_net''
         + (if noNewNet s then 1 else 0)"
    by (simp only: count_BuildExecArgs [of s prog args "''--no_new_net''"] count_flag_noNewNet)
       (simp add: count_mem_value)
  then show ?thesis
    by (simp add: BuildExecArgs_parts) (simp add: part_defs setter_defs)
qed

theorem noNewNet_flag_witness:
  "\<not> noNewNet (New ''/x'')
   \<and> BuildExecArgs (New ''/x'') ''echo'' [''hi''] = [''/x'', ''--'', ''echo'', ''hi'']
   \<and> noNewNet (SetNoNewNet True (New ''/x''))
   \<and> BuildExecArgs (SetNoNewNet True (New ''/x'')) ''echo'' [''hi'']
       = [''/x'', ''--no_new_net'', ''--'', ''echo'', ''hi'']"
  using noNewNet_flag [of "New ''/x''" "''echo''" "[''hi'']"]
    noNewNet_flag [of "SetNoNewNet True (New ''/x'')" "''echo''" "[''hi'']"]
  by (simp add: part_defs New_def SetNoNewNet_def)

text \<open>
  C8. \<^verbatim>\<open>BuildExecArgs\<close> leaves the receiver as it found it: the object behind the receiver
  after the call is the object before it, field for field. A later compilation against
  any other request therefore sees the same configuration, and a configuration with no
  optional field set compiles to the root path, the separator, the program and its
  arguments.
\<close>

theorem BuildExecArgs_frame_effect:
  "recv (BuildExecArgs_frame s prog args) = s
   \<and> BuildExecArgs (recv (BuildExecArgs_frame s prog args)) prog' args' = BuildExecArgs s prog' args'
   \<and> BuildExecArgs (New p) prog args = [p, ''--'', prog] @ args"
  by (simp add: recv_BuildExecArgs_frame) (simp add: BuildExecArgs_closed New_def)

text \<open>
  C9. Compiling twice in a row, same receiver, same program path and same arguments: the
  second call, which runs on the receiver as the first call left it, returns the vector
  the first call returned.
\<close>

theorem BuildExecArgs_twice:
  "execArgs (BuildExecArgs_frame (recv (BuildExecArgs_frame s prog args)) prog args)
     = execArgs (BuildExecArgs_frame s prog args)
   \<and> BuildExecArgs (recv (BuildExecArgs_frame s prog args)) prog args = BuildExecArgs s prog args"
  by (simp add: recv_BuildExecArgs_frame)

text \<open>
  C10. \<^verbatim>\<open>Command(path, args...)\<close> is \<^verbatim>\<open>CommandContext(nil, path, args...)\<close>; both call
  \<^verbatim>\<open>exec.Command\<close> with the executable \<^verbatim>\<open>Path\<close> and the vector of \<^verbatim>\<open>BuildExecArgs\<close>. With a
  nil context \<^verbatim>\<open>exec.CommandContext\<close> is never the primitive called; with a context it is,
  on the same executable and vector.
\<close>

theorem Command_nil_context:
  "(Command Path s prog args :: 'ctx Cmd) = CommandContext Path s None prog args
   \<and> (Command Path s prog args :: 'ctx Cmd) = exec_Command Path (BuildExecArgs s prog args)
   \<and> (CommandContext Path s None prog args :: 'ctx Cmd) = exec_Command Path (BuildExecArgs s prog args)
   \<and> (\<forall>c name xs. (CommandContext Path s None prog args :: 'ctx Cmd) \<noteq> exec_CommandContext c name xs)
   \<and> CommandContext Path s (Some c) prog args = exec_CommandContext c Path (BuildExecArgs s prog args)"
  by (simp add: Command_def CommandContext_def)

end
